theory Spec2Isabelle
  imports Main "HOL-Library.Word" "HOL-Library.Sublist"
begin

section \<open>The Gemini conversation client (src/utils/gemini/client.ts)\<close>

subsection \<open>Data\<close>

text \<open>
  \<^verbatim>\<open>ChatMessage\<close> and \<^verbatim>\<open>ImageData\<close> are the two interfaces of the module. A Node
  \<^verbatim>\<open>Buffer\<close> is a sequence of bytes.
\<close>

datatype Role = User | Model

record ChatMessage =
  role :: Role
  content :: string

record ImageData =
  buffer :: "8 word list"
  mimeType :: string

text \<open>
  One call of \<^verbatim>\<open>chat.sendMessage\<close> carries an array of parts: \<^verbatim>\<open>{ text }\<close> or
  \<^verbatim>\<open>{ inlineData: { data, mimeType } }\<close>.
\<close>

datatype Part = Text string | InlineData string string

type_synonym Request = "Part list"

text \<open>
  What a \<^verbatim>\<open>throw\<close> carries, as far as the \<^verbatim>\<open>catch\<close> block of \<^verbatim>\<open>sendMessageToGemini\<close>
  looks at it:
  \<^item> \<open>ErrorObj m\<close>: an instance of \<^verbatim>\<open>Error\<close> whose \<^verbatim>\<open>message\<close> the template literal turns
    into the text \<open>m\<close>;
  \<^item> \<open>OtherValue s\<close>: any other value, for which \<^verbatim>\<open>String(error)\<close> gives the text \<open>s\<close>;
  \<^item> \<open>Unprintable t\<close>: an instance of \<^verbatim>\<open>Error\<close> whose \<^verbatim>\<open>message\<close>, or another value which,
    has no conversion to a string (an object without \<^verbatim>\<open>toString\<close>, say): the conversion
    throws \<open>t\<close>.
\<close>

datatype Thrown = ErrorObj string | OtherValue string | Unprintable Thrown

text \<open>
  The surroundings of the module: the environment variable, the remote model, and the two
  prompt builders imported from \<^verbatim>\<open>../youtube-utils\<close> and \<^verbatim>\<open>../query-utils\<close> (parameters
  here, each taken to return a string). The remote model is any function from the requests this session has sent before
  and the request sent now to either what \<^verbatim>\<open>await chat.sendMessage(...)\<close> followed by
  \<^verbatim>\<open>.response.text()\<close> throws, or the reply text. Every call of a run has a different list
  of earlier requests, so every sequence of replies and failures is one such function.
\<close>

record Env =
  GEMINI_API_KEY :: "string option"
  generate :: "Request list \<Rightarrow> Request \<Rightarrow> Thrown + string"
  createYoutubeSystemPrompt :: "string \<Rightarrow> string"
  createRagSystemPrompt :: "string \<Rightarrow> string"

text \<open>The chat session, reduced to the requests sent through it, oldest first.\<close>

record ChatSession =
  sent :: "Request list"

subsection \<open>Library functions of the platform\<close>

text \<open>\<^verbatim>\<open>String.prototype.includes\<close>: the pattern occurs as a contiguous run.\<close>

fun string_includes :: "string \<Rightarrow> string \<Rightarrow> bool" where
  "string_includes [] p = (p = [])"
| "string_includes (c # cs) p = (prefix p (c # cs) \<or> string_includes cs p)"

text \<open>\<^verbatim>\<open>buffer.toString("base64")\<close>: the base64 alphabet of RFC 4648, padded with \<^verbatim>\<open>=\<close>.\<close>

definition base64_alphabet :: string where
  "base64_alphabet = ''ABCDEFGHIJKLMNOPQRSTUVWXYZabcdefghijklmnopqrstuvwxyz0123456789+/''"

definition base64_digit :: "nat \<Rightarrow> char" where
  "base64_digit n = base64_alphabet ! (n mod 64)"

fun base64_bytes :: "nat list \<Rightarrow> string" where
  "base64_bytes [] = []"
| "base64_bytes [a] =
     [base64_digit (a div 4), base64_digit ((a mod 4) * 16), CHR ''='', CHR ''='']"
| "base64_bytes [a, b] =
     [base64_digit (a div 4), base64_digit ((a mod 4) * 16 + b div 16),
      base64_digit ((b mod 16) * 4), CHR ''='']"
| "base64_bytes (a # b # c # rest) =
     [base64_digit (a div 4), base64_digit ((a mod 4) * 16 + b div 16),
      base64_digit ((b mod 16) * 4 + c div 64), base64_digit (c mod 64)]
     @ base64_bytes rest"

definition toString_base64 :: "8 word list \<Rightarrow> string" where
  "toString_base64 bs = base64_bytes (map unat bs)"

subsection \<open>Configuration and session\<close>

text \<open>\<^verbatim>\<open>const API_KEY = process.env.GEMINI_API_KEY || ""\<close>\<close>

definition API_KEY :: "Env \<Rightarrow> string" where
  "API_KEY env = (case GEMINI_API_KEY env of None \<Rightarrow> [] | Some k \<Rightarrow> k)"

text \<open>\<^verbatim>\<open>isGeminiConfigured = () => !!API_KEY\<close>: a string is truthy when it is not empty.\<close>

definition isGeminiConfigured :: "Env \<Rightarrow> bool" where
  "isGeminiConfigured env = (API_KEY env \<noteq> [])"

text \<open>\<^verbatim>\<open>createChatSession\<close> starts every chat with \<^verbatim>\<open>history: []\<close>.\<close>

definition createChatSession :: ChatSession where
  "createChatSession = \<lparr>sent = []\<rparr>"

text \<open>
  \<^verbatim>\<open>await chat.sendMessage(parts)\<close> with the reading of \<^verbatim>\<open>.response.text()\<close> that follows it at
  each of the four call sites. The request counts as issued whether or not it is answered.
\<close>

definition sendMessage :: "Env \<Rightarrow> ChatSession \<Rightarrow> Request \<Rightarrow> (Thrown + string) \<times> ChatSession" where
  "sendMessage env chat req = (generate env (sent chat) req, chat\<lparr>sent := sent chat @ [req]\<rparr>)"

subsection \<open>sendMessageToGemini\<close>

text \<open>
  \<^verbatim>\<open>messages[messages.length - 1].content\<close>: on the empty array the element is
  \<^verbatim>\<open>undefined\<close> and reading \<^verbatim>\<open>.content\<close> throws a \<^verbatim>\<open>TypeError\<close> (the message is V8's).
\<close>

definition undefined_content_message :: string where
  "undefined_content_message = ''Cannot read properties of undefined (reading 'content')''"

definition last_content :: "ChatMessage list \<Rightarrow> Thrown + string" where
  "last_content messages =
     (if messages = [] then Inl (ErrorObj undefined_content_message)
      else Inr (content (last messages)))"

text \<open>Lines 89 to 105: the choice of \<^verbatim>\<open>systemPrompt\<close> for a truthy \<^verbatim>\<open>fileContent\<close>.\<close>

definition choose_system_prompt :: "Env \<Rightarrow> ChatMessage list \<Rightarrow> string \<Rightarrow> Thrown + string" where
  "choose_system_prompt env messages fileContent =
     (if fileContent = ''IMAGE_FILE'' then Inr []
      else if fileContent = ''YOUTUBE_TRANSCRIPT''
        then Inr (createYoutubeSystemPrompt env fileContent)
      else (case last_content messages of
              Inl e \<Rightarrow> Inl e
            | Inr c \<Rightarrow>
                if string_includes c ''YouTube'' then Inr (createYoutubeSystemPrompt env fileContent)
                else Inr (createRagSystemPrompt env fileContent)))"

definition instruction_prefix :: string where
  "instruction_prefix =
     ''I need you to act as a document assistant with the following instructions: ''"

text \<open>
  Lines 85 to 122: \<^verbatim>\<open>if (fileContent) { ... if (systemPrompt) { await chat.sendMessage(...) } }\<close>.
  An absent and an empty \<^verbatim>\<open>fileContent\<close> are both falsy.
\<close>

definition send_system_prompt ::
  "Env \<Rightarrow> ChatMessage list \<Rightarrow> string option \<Rightarrow> ChatSession \<Rightarrow> (Thrown + unit) \<times> ChatSession" where
  "send_system_prompt env messages fileContent chat =
     (case fileContent of
        None \<Rightarrow> (Inr (), chat)
      | Some fc \<Rightarrow>
          if fc = [] then (Inr (), chat)
          else (case choose_system_prompt env messages fc of
                  Inl e \<Rightarrow> (Inl e, chat)
                | Inr systemPrompt \<Rightarrow>
                    if systemPrompt \<noteq> [] then
                      (case sendMessage env chat [Text (instruction_prefix @ systemPrompt)] of
                         (Inl e, chat') \<Rightarrow> (Inl e, chat')
                       | (Inr systemResponse, chat') \<Rightarrow> (Inr (), chat'))
                    else (Inr (), chat)))"

text \<open>
  Lines 126 to 131: \<^verbatim>\<open>for (let i = 0; i < messages.length - 1; i++)\<close>, from index \<open>i\<close> on.
  The reply of each turn is read and dropped.
\<close>

function replay_loop ::
  "Env \<Rightarrow> ChatMessage list \<Rightarrow> nat \<Rightarrow> ChatSession \<Rightarrow> (Thrown + unit) \<times> ChatSession" where
  "replay_loop env messages i chat =
     (if int i < int (length messages) - 1 then
        (case sendMessage env chat [Text (content (messages ! i))] of
           (Inl e, chat') \<Rightarrow> (Inl e, chat')
         | (Inr result, chat') \<Rightarrow> replay_loop env messages (Suc i) chat')
      else (Inr (), chat))"
  by pat_completeness auto
termination
  by (relation "measure (\<lambda>(env, messages, i, chat). length messages - i)") auto

text \<open>Lines 125 to 132: the loop runs only under \<^verbatim>\<open>messages.length > 1\<close>.\<close>

definition replay_previous ::
  "Env \<Rightarrow> ChatMessage list \<Rightarrow> ChatSession \<Rightarrow> (Thrown + unit) \<times> ChatSession" where
  "replay_previous env messages chat =
     (if length messages > 1 then replay_loop env messages 0 chat else (Inr (), chat))"

text \<open>
  Lines 135 to 165: the last message, with the image beside its text when \<^verbatim>\<open>imageData\<close> is
  given. \<^verbatim>\<open>lastUserMessage.content.substring(0, 50)\<close> in the log line is where an empty
  \<^verbatim>\<open>messages\<close> throws.
\<close>

definition send_last ::
  "Env \<Rightarrow> ChatMessage list \<Rightarrow> ImageData option \<Rightarrow> ChatSession \<Rightarrow> (Thrown + string) \<times> ChatSession" where
  "send_last env messages imageData chat =
     (case last_content messages of
        Inl e \<Rightarrow> (Inl e, chat)
      | Inr lastContent \<Rightarrow>
          (case imageData of
             Some img \<Rightarrow>
               sendMessage env chat
                 [Text lastContent, InlineData (toString_base64 (buffer img)) (mimeType img)]
           | None \<Rightarrow> sendMessage env chat [Text lastContent]))"

text \<open>The body of the \<^verbatim>\<open>try\<close> block, lines 72 to 165, with the session it leaves behind.\<close>

definition sendMessageToGemini_try ::
  "Env \<Rightarrow> ChatMessage list \<Rightarrow> string option \<Rightarrow> ImageData option \<Rightarrow> (Thrown + string) \<times> ChatSession" where
  "sendMessageToGemini_try env messages fileContent imageData =
     (if \<not> isGeminiConfigured env
        then (Inl (ErrorObj ''Gemini API key is not configured''), \<lparr>sent = []\<rparr>)
      else
        (case send_system_prompt env messages fileContent createChatSession of
           (Inl e, chat1) \<Rightarrow> (Inl e, chat1)
         | (Inr u, chat1) \<Rightarrow>
             (case replay_previous env messages chat1 of
                (Inl e, chat2) \<Rightarrow> (Inl e, chat2)
              | (Inr u', chat2) \<Rightarrow> send_last env messages imageData chat2)))"

text \<open>
  Line 168: \<^verbatim>\<open>error instanceof Error ? error.message : String(error)\<close> inside the template
  literal. It gives the text to embed, or throws when the value has no conversion.
\<close>

definition thrown_text :: "Thrown \<Rightarrow> Thrown + string" where
  "thrown_text error =
     (case error of
        ErrorObj message \<Rightarrow> Inr message
      | OtherValue s \<Rightarrow> Inr s
      | Unprintable t \<Rightarrow> Inl t)"

text \<open>The template literal of line 168 around that text.\<close>

definition error_reply :: "string \<Rightarrow> string" where
  "error_reply text =
     ''I'm sorry, I encountered an error while processing your request. '' @ text"

text \<open>
  How a call of an async function ends: the promise is fulfilled with a value or rejected
  with what was thrown.
\<close>

datatype 'a Settled = Fulfilled 'a | Rejected Thrown

text \<open>
  The \<^verbatim>\<open>catch\<close> block, lines 166 to 169: it logs and returns the reply. Nothing encloses it,
  so what the conversion throws rejects the promise.
\<close>

definition catch_block :: "Thrown \<Rightarrow> string Settled" where
  "catch_block error =
     (case thrown_text error of
        Inl t \<Rightarrow> Rejected t
      | Inr text \<Rightarrow> Fulfilled (error_reply text))"

text \<open>
  \<^verbatim>\<open>sendMessageToGemini\<close>: the \<^verbatim>\<open>try\<close> block under its \<^verbatim>\<open>catch\<close>. The result is how the
  promise settles, paired with the requests issued to the model, in order.
\<close>

definition sendMessageToGemini ::
  "Env \<Rightarrow> ChatMessage list \<Rightarrow> string option \<Rightarrow> ImageData option \<Rightarrow> string Settled \<times> Request list" where
  "sendMessageToGemini env messages fileContent imageData =
     (case sendMessageToGemini_try env messages fileContent imageData of
        (Inr text, chat) \<Rightarrow> (Fulfilled text, sent chat)
      | (Inl error, chat) \<Rightarrow> (catch_block error, sent chat))"

section \<open>The chat hook (src/hooks/useChats.ts)\<close>

subsection \<open>Rows, errors and the remote store\<close>

text \<open>
  A JavaScript string is a sequence of UTF-16 code units. File ids are kept in this form,
  because the hook looks at their characters (\<^verbatim>\<open>fileId?.trim()\<close>); the other strings of the
  hook are only compared and passed on.
\<close>

type_synonym JsString = "16 word list"

text \<open>
  Modelled from the spec: \<^verbatim>\<open>TypeChat\<close> of \<^verbatim>\<open>@/types/TypeSupabase\<close> is not among the sources.
  A chat row has an identifier, an owning user identifier, a creation timestamp, a reference
  to its file and a title as its mutable field. The hook itself reads only \<^verbatim>\<open>id\<close>.
\<close>

record TypeChat =
  chat_id :: string
  chat_user_id :: string
  chat_created_at :: string
  chat_file_id :: JsString
  chat_title :: string

text \<open>\<^verbatim>\<open>Partial<TypeChat>\<close>: any subset of the columns, each with its new value.\<close>

record ChatPatch =
  set_id :: "string option"
  set_user_id :: "string option"
  set_created_at :: "string option"
  set_file_id :: "JsString option"
  set_title :: "string option"

definition apply_patch :: "ChatPatch \<Rightarrow> TypeChat \<Rightarrow> TypeChat" where
  "apply_patch p c =
     \<lparr>chat_id = (case set_id p of None \<Rightarrow> chat_id c | Some v \<Rightarrow> v),
      chat_user_id = (case set_user_id p of None \<Rightarrow> chat_user_id c | Some v \<Rightarrow> v),
      chat_created_at = (case set_created_at p of None \<Rightarrow> chat_created_at c | Some v \<Rightarrow> v),
      chat_file_id = (case set_file_id p of None \<Rightarrow> chat_file_id c | Some v \<Rightarrow> v),
      chat_title = (case set_title p of None \<Rightarrow> chat_title c | Some v \<Rightarrow> v)\<rparr>"

text \<open>What \<^verbatim>\<open>select("id, user_id")\<close> on \<^verbatim>\<open>files\<close> returns for a row.\<close>

record FileCheck =
  file_id :: JsString
  file_user_id :: string

text \<open>The error object in the \<^verbatim>\<open>{ data, error }\<close> answer of the store client.\<close>

record PostgrestError =
  pg_code :: string
  pg_message :: string

text \<open>
  What a mutation function throws: an error of one of the hook's kinds, with its message,
  the code of the kind and a status, or any other rejection, with its message only.
\<close>

datatype Failure = ChatError (message: string) (code: string) (status: nat) | OtherError string

text \<open>
  Modelled from the spec: \<^verbatim>\<open>createChatError\<close> of \<^verbatim>\<open>@/utils/chat-utils\<close> is not among the
  sources. It builds the error of a kind from the three arguments every call in the hook
  gives it: message, code, status.
\<close>

definition createChatError :: "string \<Rightarrow> string \<Rightarrow> nat \<Rightarrow> Failure" where
  "createChatError m c s = ChatError m c s"

text \<open>
  The remote store, as far as the three mutations reach it: the rows of \<^verbatim>\<open>files\<close> and
  \<^verbatim>\<open>chats\<close>, and \<open>outage\<close>, the error with which it answers a request it cannot serve
  (\<open>None\<close> when it is serving).
\<close>

record Store =
  files :: "FileCheck list"
  chats :: "TypeChat list"
  outage :: "PostgrestError option"

text \<open>
  The error of a \<^verbatim>\<open>single()\<close> or \<^verbatim>\<open>maybeSingle()\<close> request whose result is not one row.
\<close>

definition not_single_error :: PostgrestError where
  "not_single_error =
     \<lparr>pg_code = ''PGRST116'',
      pg_message = ''JSON object requested, multiple (or no) rows returned''\<rparr>"

text \<open>
  \<^verbatim>\<open>supabase.from("files").select("id, user_id").eq("id", fileId).maybeSingle()\<close>: the pair is
  \<^verbatim>\<open>{ data, error }\<close>. No row gives \<^verbatim>\<open>data: null\<close> without an error. The request
  carries no owner filter, so it is answered from every row of the table.
\<close>

definition select_file_maybeSingle ::
  "Store \<Rightarrow> JsString \<Rightarrow> FileCheck option \<times> PostgrestError option" where
  "select_file_maybeSingle db fileId =
     (case outage db of
        Some e \<Rightarrow> (None, Some e)
      | None \<Rightarrow>
          (case filter (\<lambda>f. file_id f = fileId) (files db) of
             [] \<Rightarrow> (None, None)
           | [f] \<Rightarrow> (Some f, None)
           | f # g # others \<Rightarrow> (None, Some not_single_error)))"

text \<open>
  The ownership filter \<^verbatim>\<open>.eq("id", chatId).eq("user_id", userId)\<close> on \<^verbatim>\<open>chats\<close>; \<^verbatim>\<open>userId\<close> is
  passed as the hook holds it.
\<close>

definition owned_chat :: "string \<Rightarrow> string option \<Rightarrow> TypeChat \<Rightarrow> bool" where
  "owned_chat chatId uid c = (chat_id c = chatId \<and> Some (chat_user_id c) = uid)"

text \<open>
  \<^verbatim>\<open>supabase.from("chats").update(chatData).eq(...).eq(...).select().single()\<close>: with exactly one
  row under the filter the row is updated and returned; otherwise the request is answered with
  an error and leaves the table as it was.
\<close>

definition update_chat_single ::
  "Store \<Rightarrow> string \<Rightarrow> string option \<Rightarrow> ChatPatch \<Rightarrow> (TypeChat option \<times> PostgrestError option) \<times> Store" where
  "update_chat_single db chatId uid chatData =
     (case outage db of
        Some e \<Rightarrow> ((None, Some e), db)
      | None \<Rightarrow>
          (case filter (owned_chat chatId uid) (chats db) of
             [c] \<Rightarrow>
               ((Some (apply_patch chatData c), None),
                db\<lparr>chats := map (\<lambda>r. if owned_chat chatId uid r then apply_patch chatData r else r)
                               (chats db)\<rparr>)
           | other \<Rightarrow> ((None, Some not_single_error), db)))"

text \<open>
  \<^verbatim>\<open>supabase.from("chats").delete().eq("id", chatId).eq("user_id", userId)\<close>: the rows under
  the filter are removed, however many there are; the answer carries an error only when the
  store cannot serve the request.
\<close>

definition delete_chat :: "Store \<Rightarrow> string \<Rightarrow> string option \<Rightarrow> PostgrestError option \<times> Store" where
  "delete_chat db chatId uid =
     (case outage db of
        Some e \<Rightarrow> (Some e, db)
      | None \<Rightarrow> (None, db\<lparr>chats := filter (\<lambda>c. \<not> owned_chat chatId uid c) (chats db)\<rparr>))"

subsection \<open>The hook's surroundings and state\<close>

text \<open>
  What the hook closes over: \<^verbatim>\<open>userId\<close> from \<^verbatim>\<open>useUser\<close>, whether \<^verbatim>\<open>supabaseBrowserClient()\<close>
  gave a client, and the functions imported from \<^verbatim>\<open>@/utils/chat-utils\<close> and
  \<^verbatim>\<open>@/utils/gemini/actions\<close>, which are not among the sources and are parameters here.
  \<^verbatim>\<open>validateData\<close> returns what it throws, if anything. \<^verbatim>\<open>createChatWithGemini\<close> is a server
  action on the store: it rejects, or resolves with a chat or with nothing.
\<close>

record Hook =
  userId :: "string option"
  supabase :: bool
  validateChatId :: "string \<Rightarrow> bool"
  validateData :: "ChatPatch \<Rightarrow> string \<Rightarrow> Failure option"
  getErrorFromSupabaseError :: "PostgrestError \<Rightarrow> string \<Rightarrow> Failure"
  createChatWithGemini ::
    "JsString \<Rightarrow> string option \<Rightarrow> Store \<Rightarrow> (Failure + TypeChat option) \<times> Store"

text \<open>
  The query cache under \<^verbatim>\<open>CHATS_QUERY_KEY\<close>: the data at \<^verbatim>\<open>["chats"]\<close> (absent until set) and
  the data at \<^verbatim>\<open>["chats", id]\<close> for each id.
\<close>

record QueryCache =
  chats_list :: "TypeChat list option"
  chat_items :: "string \<rightharpoonup> TypeChat"

text \<open>
  The state the mutations act on: the remote store, the query cache, and the calls of
  \<^verbatim>\<open>createChatWithGemini\<close> made so far, each with its file id and user id.
\<close>

record World =
  store :: Store
  cache :: QueryCache
  creations :: "(JsString \<times> string option) list"

subsection \<open>Validation\<close>

text \<open>
  \<^verbatim>\<open>validateUserAuth\<close>, returning what it throws: \<^verbatim>\<open>!userId\<close> holds for an absent and for an
  empty user id.
\<close>

definition validateUserAuth :: "Hook \<Rightarrow> Failure option" where
  "validateUserAuth h =
     (if userId h = None \<or> userId h = Some [] then
        Some (createChatError ''User not authenticated'' ''NO_USER_ID'' 401)
      else if \<not> supabase h then
        Some (createChatError ''Database connection not available'' ''NO_SUPABASE'' 500)
      else None)"

text \<open>
  The code units \<^verbatim>\<open>String.prototype.trim\<close> removes from both ends: the white space of
  ECMAScript (tab, vertical tab, form feed, space, no-break space, the byte order mark
  U+FEFF and the other space separators of Unicode: U+1680, U+2000 to U+200A, U+202F,
  U+205F, U+3000) and its line terminators (line feed, carriage return, U+2028, U+2029).
\<close>

definition is_space :: "16 word \<Rightarrow> bool" where
  "is_space c =
     (c \<in> set [0x0009, 0x000A, 0x000B, 0x000C, 0x000D, 0x0020, 0x00A0, 0x1680,
                0x2000, 0x2001, 0x2002, 0x2003, 0x2004, 0x2005, 0x2006, 0x2007, 0x2008,
                0x2009, 0x200A, 0x2028, 0x2029, 0x202F, 0x205F, 0x3000, 0xFEFF])"

text \<open>\<^verbatim>\<open>String.prototype.trim\<close>\<close>

definition trim :: "JsString \<Rightarrow> JsString" where
  "trim s = rev (dropWhile is_space (rev (dropWhile is_space s)))"

subsection \<open>Cache update utilities\<close>

text \<open>
  \<^verbatim>\<open>updateChatListCache\<close>: \<^verbatim>\<open>queryClient.setQueryData(CHATS_QUERY_KEY, updater)\<close> stores what
  the updater makes of the old data; every updater of the hook returns an array.
\<close>

definition updateChatListCache ::
  "(TypeChat list option \<Rightarrow> TypeChat list) \<Rightarrow> QueryCache \<Rightarrow> QueryCache" where
  "updateChatListCache updater qc = qc\<lparr>chats_list := Some (updater (chats_list qc))\<rparr>"

text \<open>\<^verbatim>\<open>addChatToCache\<close>: \<^verbatim>\<open>[newChat, ...(oldData || [])]\<close>\<close>

definition addChatToCache :: "TypeChat \<Rightarrow> QueryCache \<Rightarrow> QueryCache" where
  "addChatToCache newChat qc =
     updateChatListCache
       (\<lambda>oldData. newChat # (case oldData of None \<Rightarrow> [] | Some xs \<Rightarrow> xs)) qc"

text \<open>\<^verbatim>\<open>updateChatInCache\<close>: the single chat first, then the list.\<close>

definition updateChatInCache :: "TypeChat \<Rightarrow> QueryCache \<Rightarrow> QueryCache" where
  "updateChatInCache updatedChat qc =
     updateChatListCache
       (\<lambda>oldData. case oldData of
                    None \<Rightarrow> [updatedChat]
                  | Some xs \<Rightarrow>
                      map (\<lambda>chat. if chat_id chat = chat_id updatedChat then updatedChat else chat) xs)
       (qc\<lparr>chat_items := (chat_items qc)(chat_id updatedChat \<mapsto> updatedChat)\<rparr>)"

text \<open>
  \<^verbatim>\<open>removeChatFromCache\<close>: \<^verbatim>\<open>removeQueries({ queryKey: ["chats", chatId] })\<close> removes the
  queries whose key begins with that key, which under \<^verbatim>\<open>["chats"]\<close> is the one of this id;
  then \<^verbatim>\<open>oldData?.filter((chat) => chat.id !== chatId) || []\<close> on the list.
\<close>

definition removeChatFromCache :: "string \<Rightarrow> QueryCache \<Rightarrow> QueryCache" where
  "removeChatFromCache chatId qc =
     updateChatListCache
       (\<lambda>oldData. case oldData of
                    None \<Rightarrow> []
                  | Some xs \<Rightarrow> filter (\<lambda>chat. chat_id chat \<noteq> chatId) xs)
       (qc\<lparr>chat_items := (chat_items qc)(chatId := None)\<rparr>)"

subsection \<open>Mutations\<close>

text \<open>
  \<^verbatim>\<open>startChatWithFileMutation.mutationFn\<close>, lines 214 to 251. \<^verbatim>\<open>!fileId?.trim()\<close> holds
  when trimming leaves nothing; \<^verbatim>\<open>!chat?.id\<close> holds for no chat and for a chat with an empty
  id.
\<close>

definition startChatWithFile_mutationFn ::
  "Hook \<Rightarrow> World \<Rightarrow> JsString \<Rightarrow> (Failure + TypeChat) \<times> World" where
  "startChatWithFile_mutationFn h w fileId =
     (case validateUserAuth h of
        Some e \<Rightarrow> (Inl e, w)
      | None \<Rightarrow>
          if trim fileId = [] then
            (Inl (createChatError ''Valid file ID is required'' ''INVALID_FILE_ID'' 400), w)
          else
            (case select_file_maybeSingle (store w) fileId of
               (fileCheck, Some fileCheckError) \<Rightarrow>
                 (Inl (getErrorFromSupabaseError h fileCheckError ''verify file''), w)
             | (None, None) \<Rightarrow>
                 (Inl (createChatError ''File not found'' ''FILE_NOT_FOUND'' 404), w)
             | (Some fileCheck, None) \<Rightarrow>
                 if Some (file_user_id fileCheck) \<noteq> userId h then
                   (Inl (createChatError ''File access denied'' ''FILE_ACCESS_DENIED'' 403), w)
                 else
                   (case createChatWithGemini h fileId (userId h) (store w) of
                      (outcome, db) \<Rightarrow>
                        (let w' = w\<lparr>store := db,
                                    creations := creations w @ [(fileId, userId h)]\<rparr>
                         in case outcome of
                              Inl e \<Rightarrow> (Inl e, w')
                            | Inr None \<Rightarrow>
                                (Inl (createChatError ''Failed to create chat - invalid response''
                                        ''INVALID_CHAT_RESPONSE'' 500), w')
                            | Inr (Some chat) \<Rightarrow>
                                if chat_id chat = [] then
                                  (Inl (createChatError ''Failed to create chat - invalid response''
                                          ''INVALID_CHAT_RESPONSE'' 500), w')
                                else (Inr chat, w')))))"

text \<open>\<^verbatim>\<open>updateChatMutation.mutationFn\<close>, lines 293 to 325.\<close>

definition updateChat_mutationFn ::
  "Hook \<Rightarrow> World \<Rightarrow> string \<Rightarrow> ChatPatch \<Rightarrow> (Failure + TypeChat) \<times> World" where
  "updateChat_mutationFn h w chatId chatData =
     (case validateUserAuth h of
        Some e \<Rightarrow> (Inl e, w)
      | None \<Rightarrow>
          if \<not> validateChatId h chatId then
            (Inl (createChatError ''Valid chat ID is required'' ''INVALID_CHAT_ID'' 400), w)
          else
            (case validateData h chatData ''chat data'' of
               Some e \<Rightarrow> (Inl e, w)
             | None \<Rightarrow>
                 (case update_chat_single (store w) chatId (userId h) chatData of
                    ((data, Some error), db) \<Rightarrow>
                      (Inl (getErrorFromSupabaseError h error ''update chat''), w\<lparr>store := db\<rparr>)
                  | ((None, None), db) \<Rightarrow>
                      (Inl (createChatError ''Chat not found or access denied''
                              ''CHAT_NOT_FOUND'' 404), w\<lparr>store := db\<rparr>)
                  | ((Some data, None), db) \<Rightarrow> (Inr data, w\<lparr>store := db\<rparr>))))"

text \<open>
  \<^verbatim>\<open>deleteChatMutation.mutationFn\<close>, lines 335 to 353: of the store's answer only \<^verbatim>\<open>error\<close> is
  read.
\<close>

definition deleteChat_mutationFn ::
  "Hook \<Rightarrow> World \<Rightarrow> string \<Rightarrow> (Failure + string) \<times> World" where
  "deleteChat_mutationFn h w chatId =
     (case validateUserAuth h of
        Some e \<Rightarrow> (Inl e, w)
      | None \<Rightarrow>
          if \<not> validateChatId h chatId then
            (Inl (createChatError ''Valid chat ID is required'' ''INVALID_CHAT_ID'' 400), w)
          else
            (case delete_chat (store w) chatId (userId h) of
               (Some error, db) \<Rightarrow>
                 (Inl (getErrorFromSupabaseError h error ''delete chat''), w\<lparr>store := db\<rparr>)
             | (None, db) \<Rightarrow> (Inr chatId, w\<lparr>store := db\<rparr>)))"

text \<open>
  Running a mutation: the mutation function, then \<^verbatim>\<open>onSuccess\<close> with its result or
  \<^verbatim>\<open>onError\<close> with what it threw. The three \<^verbatim>\<open>onError\<close> callbacks log, and \<^verbatim>\<open>handleError\<close> may
  navigate to the login page; none of them reaches the store or the cache.
\<close>

definition startChatWithFile ::
  "Hook \<Rightarrow> World \<Rightarrow> JsString \<Rightarrow> (Failure + TypeChat) \<times> World" where
  "startChatWithFile h w fileId =
     (case startChatWithFile_mutationFn h w fileId of
        (Inl e, w') \<Rightarrow> (Inl e, w')
      | (Inr chat, w') \<Rightarrow> (Inr chat, w'\<lparr>cache := addChatToCache chat (cache w')\<rparr>))"

definition updateChat ::
  "Hook \<Rightarrow> World \<Rightarrow> string \<Rightarrow> ChatPatch \<Rightarrow> (Failure + TypeChat) \<times> World" where
  "updateChat h w chatId chatData =
     (case updateChat_mutationFn h w chatId chatData of
        (Inl e, w') \<Rightarrow> (Inl e, w')
      | (Inr chat, w') \<Rightarrow> (Inr chat, w'\<lparr>cache := updateChatInCache chat (cache w')\<rparr>))"

definition deleteChat :: "Hook \<Rightarrow> World \<Rightarrow> string \<Rightarrow> (Failure + string) \<times> World" where
  "deleteChat h w chatId =
     (case deleteChat_mutationFn h w chatId of
        (Inl e, w') \<Rightarrow> (Inl e, w')
      | (Inr deleted, w') \<Rightarrow> (Inr deleted, w'\<lparr>cache := removeChatFromCache deleted (cache w')\<rparr>))"

section \<open>Vocabulary of the properties\<close>

subsection \<open>Requests of a run\<close>

text \<open>
  The request that replays one message: its text alone, whatever its role.
\<close>

definition turn_request :: "ChatMessage \<Rightarrow> Request" where
  "turn_request m = [Text (content m)]"

text \<open>
  The instruction turn of a run, if it has one: the requests \<^verbatim>\<open>send_system_prompt\<close> issues when
  nothing throws before the call.
\<close>

definition system_requests :: "Env \<Rightarrow> ChatMessage list \<Rightarrow> string option \<Rightarrow> Request list" where
  "system_requests env messages fileContent =
     (case fileContent of
        None \<Rightarrow> []
      | Some fc \<Rightarrow>
          if fc = [] then []
          else (case choose_system_prompt env messages fc of
                  Inl e \<Rightarrow> []
                | Inr systemPrompt \<Rightarrow>
                    if systemPrompt \<noteq> [] then [[Text (instruction_prefix @ systemPrompt)]]
                    else []))"

text \<open>
  The request of the last message, with the image beside the text when there is one.
\<close>

definition final_request :: "ChatMessage list \<Rightarrow> ImageData option \<Rightarrow> Request" where
  "final_request messages imageData =
     (case imageData of
        None \<Rightarrow> [Text (content (last messages))]
      | Some img \<Rightarrow>
          [Text (content (last messages)),
           InlineData (toString_base64 (buffer img)) (mimeType img)])"

text \<open>
  The requests of a run no call of which fails, in the order of the source: instruction turn,
  replayed turns, final turn.
\<close>

definition expected_requests ::
  "Env \<Rightarrow> ChatMessage list \<Rightarrow> string option \<Rightarrow> ImageData option \<Rightarrow> Request list" where
  "expected_requests env messages fileContent imageData =
     system_requests env messages fileContent
     @ map turn_request (butlast messages)
     @ [final_request messages imageData]"

text \<open>
  \<open>answers env earlier reqs\<close>: the model answers each of \<open>reqs\<close> in turn with a reply, after
  \<open>earlier\<close> has been sent.
\<close>

fun answers :: "Env \<Rightarrow> Request list \<Rightarrow> Request list \<Rightarrow> bool" where
  "answers env h [] = True"
| "answers env h (r # rs) =
     (case generate env h r of Inl e \<Rightarrow> False | Inr t \<Rightarrow> answers env (h @ [r]) rs)"



subsection \<open>Example surroundings of the conversation client\<close>

text \<open>
  A model that answers every request with the texts it was sent, a model that fails every
  request with an \<^verbatim>\<open>Error\<close>, a model that fails every request with an object that has no
  conversion to a string, two prompt builders, and four environments built from them:
  configured with each of the three models, and without an API key.
\<close>

fun part_text :: "Part \<Rightarrow> string" where
  "part_text (Text t) = t"
| "part_text (InlineData d m) = m"

definition echo_model :: "Request list \<Rightarrow> Request \<Rightarrow> Thrown + string" where
  "echo_model earlier req = Inr (''echo '' @ concat (map part_text req))"



definition youtube_prompt :: "string \<Rightarrow> string" where
  "youtube_prompt t = ''YT: '' @ t"

definition rag_prompt :: "string \<Rightarrow> string" where
  "rag_prompt t = ''RAG: '' @ t"

definition example_env :: Env where
  "example_env = \<lparr>GEMINI_API_KEY = Some ''key'', generate = echo_model,
     createYoutubeSystemPrompt = youtube_prompt, createRagSystemPrompt = rag_prompt\<rparr>"


definition unconfigured_env :: Env where
  "unconfigured_env = \<lparr>GEMINI_API_KEY = None, generate = echo_model,
     createYoutubeSystemPrompt = youtube_prompt, createRagSystemPrompt = rag_prompt\<rparr>"


subsection \<open>Example surroundings of the chat hook\<close>

text \<open>The code units of a string of ASCII characters.\<close>

definition utf16 :: "string \<Rightarrow> JsString" where
  "utf16 s = map of_char s"

text \<open>
  Two chats of user \<open>alice\<close>; a store that holds them, a file of \<open>alice\<close> and a file of
  \<open>bob\<close>; a cache that has loaded the list and the first chat; and a hook of \<open>alice\<close> whose
  validators accept every non-empty id and every payload and whose chat creation inserts a
  chat for the file. Last, a world whose store holds one file of \<open>bob\<close> under an id that is a
  single space.
\<close>

definition chat_one :: TypeChat where
  "chat_one = \<lparr>chat_id = ''c1'', chat_user_id = ''alice'', chat_created_at = ''2024-01-01'',
     chat_file_id = utf16 ''f1'', chat_title = ''First''\<rparr>"

definition chat_two :: TypeChat where
  "chat_two = \<lparr>chat_id = ''c2'', chat_user_id = ''alice'', chat_created_at = ''2024-01-02'',
     chat_file_id = utf16 ''f1'', chat_title = ''Second''\<rparr>"

definition example_store :: Store where
  "example_store =
     \<lparr>files = [\<lparr>file_id = utf16 ''f1'', file_user_id = ''alice''\<rparr>,
               \<lparr>file_id = utf16 ''f9'', file_user_id = ''bob''\<rparr>],
      chats = [chat_two, chat_one],
      outage = None\<rparr>"

definition example_cache :: QueryCache where
  "example_cache = \<lparr>chats_list = Some [chat_two, chat_one], chat_items = [''c1'' \<mapsto> chat_one]\<rparr>"

definition example_world :: World where
  "example_world = \<lparr>store = example_store, cache = example_cache, creations = []\<rparr>"

definition example_createChat ::
  "JsString \<Rightarrow> string option \<Rightarrow> Store \<Rightarrow> (Failure + TypeChat option) \<times> Store" where
  "example_createChat fileId uid db =
     (let chat = \<lparr>chat_id = ''c3'',
                   chat_user_id = (case uid of None \<Rightarrow> [] | Some u \<Rightarrow> u),
                   chat_created_at = ''2024-01-03'', chat_file_id = fileId,
                   chat_title = ''New''\<rparr>
      in (Inr (Some chat), db\<lparr>chats := chat # chats db\<rparr>))"

definition example_hook :: Hook where
  "example_hook =
     \<lparr>userId = Some ''alice'', supabase = True,
      validateChatId = (\<lambda>chatId. chatId \<noteq> []),
      validateData = (\<lambda>chatData context. None),
      getErrorFromSupabaseError = (\<lambda>error context. OtherError (pg_message error)),
      createChatWithGemini = example_createChat\<rparr>"

definition rename_to_third :: ChatPatch where
  "rename_to_third =
     \<lparr>set_id = None, set_user_id = None, set_created_at = None, set_file_id = None,
      set_title = Some ''Third''\<rparr>"

definition blank_id_world :: World where
  "blank_id_world =
     \<lparr>store = \<lparr>files = [\<lparr>file_id = utf16 '' '', file_user_id = ''bob''\<rparr>],
                chats = [], outage = None\<rparr>,
      cache = example_cache, creations = []\<rparr>"

section \<open>Properties of the conversation client\<close>

subsection \<open>The replay loop\<close>

lemma answers_append:
  "answers env h (xs @ ys) = (answers env h xs \<and> answers env (h @ xs) ys)"
  by (induction xs arbitrary: h) (auto split: sum.splits)

lemma drop_butlast_step:
  assumes "Suc i < length messages"
  shows "drop i (butlast messages) = messages ! i # drop (Suc i) (butlast messages)"
proof -
  from assms have len: "i < length (butlast messages)" by simp
  have "drop i (butlast messages) = butlast messages ! i # drop (Suc i) (butlast messages)"
    using Cons_nth_drop_Suc [OF len] by simp
  also have "butlast messages ! i = messages ! i"
    using len by (rule nth_butlast)
  finally show ?thesis .
qed

lemma drop_butlast_done:
  "\<not> Suc i < length messages \<Longrightarrow> drop i (butlast messages) = []"
  by simp

lemma loop_guard: "(int i < int (length messages) - 1) = (Suc i < length messages)"
  by auto

declare replay_loop.simps [simp del]

lemma replay_loop_step:
  "Suc i < length messages \<Longrightarrow>
   replay_loop env messages i chat =
     (case generate env (sent chat) (turn_request (messages ! i)) of
        Inl e \<Rightarrow> (Inl e, chat\<lparr>sent := sent chat @ [turn_request (messages ! i)]\<rparr>)
      | Inr t \<Rightarrow>
          replay_loop env messages (Suc i)
            (chat\<lparr>sent := sent chat @ [turn_request (messages ! i)]\<rparr>))"
  by (subst replay_loop.simps) (simp add: loop_guard sendMessage_def turn_request_def split: sum.splits)

lemma replay_loop_stop:
  "\<not> Suc i < length messages \<Longrightarrow> replay_loop env messages i chat = (Inr (), chat)"
  by (subst replay_loop.simps) (simp add: loop_guard)

lemma replay_loop_returns:
  "fst (replay_loop env messages i chat) = Inr u \<Longrightarrow>
   snd (replay_loop env messages i chat) =
     chat\<lparr>sent := sent chat @ map turn_request (drop i (butlast messages))\<rparr>"
proof (induction "length messages - i" arbitrary: i chat)
  case 0
  then have stop: "\<not> Suc i < length messages" by simp
  then show ?case
    by (simp add: replay_loop_stop)
next
  case (Suc n)
  show ?case
  proof (cases "Suc i < length messages")
    case False
    then show ?thesis by (simp add: replay_loop_stop)
  next
    case True
    let ?chat' = "chat\<lparr>sent := sent chat @ [turn_request (messages ! i)]\<rparr>"
    from Suc.hyps(2) have n: "n = length messages - Suc i" by simp
    show ?thesis
    proof (cases "generate env (sent chat) (turn_request (messages ! i))")
      case (Inl e)
      with True Suc.prems show ?thesis by (simp add: replay_loop_step)
    next
      case (Inr t)
      with True have unfold:
        "replay_loop env messages i chat = replay_loop env messages (Suc i) ?chat'"
        by (simp add: replay_loop_step)
      with Suc.prems have "fst (replay_loop env messages (Suc i) ?chat') = Inr u" by simp
      from Suc.hyps(1) [OF n this] show ?thesis
        by (simp add: unfold drop_butlast_step [OF True])
    qed
  qed
qed

lemma replay_loop_sent:
  "\<exists>ys. sent (snd (replay_loop env messages i chat)) = sent chat @ ys
        \<and> prefix ys (map turn_request (drop i (butlast messages)))"
proof (induction "length messages - i" arbitrary: i chat)
  case 0
  then have stop: "\<not> Suc i < length messages" by simp
  then show ?case
    by (simp add: replay_loop_stop)
next
  case (Suc n)
  show ?case
  proof (cases "Suc i < length messages")
    case False
    then show ?thesis by (simp add: replay_loop_stop)
  next
    case True
    let ?r = "turn_request (messages ! i)"
    let ?chat' = "chat\<lparr>sent := sent chat @ [?r]\<rparr>"
    from Suc.hyps(2) have n: "n = length messages - Suc i" by simp
    show ?thesis
    proof (cases "generate env (sent chat) ?r")
      case (Inl e)
      with True have "sent (snd (replay_loop env messages i chat)) = sent chat @ [?r]"
        by (simp add: replay_loop_step)
      moreover have "prefix [?r] (map turn_request (drop i (butlast messages)))"
        by (simp add: drop_butlast_step [OF True])
      ultimately show ?thesis by blast
    next
      case (Inr t)
      with True have unfold:
        "replay_loop env messages i chat = replay_loop env messages (Suc i) ?chat'"
        by (simp add: replay_loop_step)
      from Suc.hyps(1) [OF n, of ?chat'] obtain ys where
        ys: "sent (snd (replay_loop env messages (Suc i) ?chat')) = sent ?chat' @ ys"
            "prefix ys (map turn_request (drop (Suc i) (butlast messages)))"
        by blast
      have "sent (snd (replay_loop env messages i chat)) = sent chat @ (?r # ys)"
        using ys(1) by (simp add: unfold)
      moreover have "prefix (?r # ys) (map turn_request (drop i (butlast messages)))"
        using ys(2) by (simp add: drop_butlast_step [OF True])
      ultimately show ?thesis by blast
    qed
  qed
qed

lemma replay_loop_answered:
  "answers env (sent chat) (map turn_request (drop i (butlast messages))) \<Longrightarrow>
   fst (replay_loop env messages i chat) = Inr ()"
proof (induction "length messages - i" arbitrary: i chat)
  case 0
  then have stop: "\<not> Suc i < length messages" by simp
  then show ?case
    by (simp add: replay_loop_stop)
next
  case (Suc n)
  show ?case
  proof (cases "Suc i < length messages")
    case False
    then show ?thesis by (simp add: replay_loop_stop)
  next
    case True
    let ?r = "turn_request (messages ! i)"
    let ?chat' = "chat\<lparr>sent := sent chat @ [?r]\<rparr>"
    from Suc.hyps(2) have n: "n = length messages - Suc i" by simp
    from Suc.prems obtain t where
      t: "generate env (sent chat) ?r = Inr t" and
      rest: "answers env (sent ?chat') (map turn_request (drop (Suc i) (butlast messages)))"
      by (auto simp: drop_butlast_step [OF True] split: sum.splits)
    from t True have unfold:
      "replay_loop env messages i chat = replay_loop env messages (Suc i) ?chat'"
      by (simp add: replay_loop_step)
    from Suc.hyps(1) [OF n rest] show ?thesis
      by (simp add: unfold)
  qed
qed


subsection \<open>The stages of a run\<close>

lemma replay_previous_eq:
  "replay_previous env messages chat = replay_loop env messages 0 chat"
  by (cases "Suc 0 < length messages") (simp_all add: replay_previous_def replay_loop_stop)

lemma replay_previous_returns:
  "fst (replay_previous env messages chat) = Inr u \<Longrightarrow>
   snd (replay_previous env messages chat) =
     chat\<lparr>sent := sent chat @ map turn_request (butlast messages)\<rparr>"
  using replay_loop_returns [of env messages 0 chat u] by (simp add: replay_previous_eq)

lemma replay_previous_sent:
  "\<exists>ys. sent (snd (replay_previous env messages chat)) = sent chat @ ys
        \<and> prefix ys (map turn_request (butlast messages))"
  using replay_loop_sent [of env messages 0 chat] by (simp add: replay_previous_eq)

lemma replay_previous_answered:
  "answers env (sent chat) (map turn_request (butlast messages)) \<Longrightarrow>
   fst (replay_previous env messages chat) = Inr ()"
  using replay_loop_answered [of env chat 0 messages] by (simp add: replay_previous_eq)

lemma send_system_prompt_returns:
  "fst (send_system_prompt env messages fileContent chat) = Inr u \<Longrightarrow>
   snd (send_system_prompt env messages fileContent chat) =
     chat\<lparr>sent := sent chat @ system_requests env messages fileContent\<rparr>"
  by (auto simp: send_system_prompt_def system_requests_def sendMessage_def
           split: option.splits sum.splits if_splits)

lemma send_system_prompt_sent:
  "\<exists>ys. sent (snd (send_system_prompt env messages fileContent chat)) = sent chat @ ys
        \<and> prefix ys (system_requests env messages fileContent)"
  by (auto simp: send_system_prompt_def system_requests_def sendMessage_def
           split: option.splits sum.splits if_splits)

lemma choose_system_prompt_nonempty:
  "messages \<noteq> [] \<Longrightarrow> \<exists>p. choose_system_prompt env messages fc = Inr p"
  by (simp add: choose_system_prompt_def last_content_def)

lemma send_system_prompt_answered:
  "messages \<noteq> [] \<Longrightarrow> answers env (sent chat) (system_requests env messages fileContent) \<Longrightarrow>
   fst (send_system_prompt env messages fileContent chat) = Inr ()"
proof -
  assume ne: "messages \<noteq> []"
    and ans: "answers env (sent chat) (system_requests env messages fileContent)"
  show ?thesis
  proof (cases fileContent)
    case None
    then show ?thesis by (simp add: send_system_prompt_def)
  next
    case (Some fc)
    from choose_system_prompt_nonempty [OF ne, of env fc]
    obtain p where p: "choose_system_prompt env messages fc = Inr p" by blast
    with Some ans show ?thesis
      by (auto simp: send_system_prompt_def system_requests_def sendMessage_def
               split: sum.splits if_splits)
  qed
qed

lemma send_last_nonempty:
  "messages \<noteq> [] \<Longrightarrow>
   send_last env messages imageData chat =
     (generate env (sent chat) (final_request messages imageData),
      chat\<lparr>sent := sent chat @ [final_request messages imageData]\<rparr>)"
  by (simp add: send_last_def last_content_def final_request_def sendMessage_def
           split: option.splits)

subsection \<open>The whole run\<close>

lemma try_unfold:
  "isGeminiConfigured env \<Longrightarrow>
   sendMessageToGemini_try env messages fileContent imageData =
     (case fst (send_system_prompt env messages fileContent createChatSession) of
        Inl e \<Rightarrow> (Inl e, snd (send_system_prompt env messages fileContent createChatSession))
      | Inr u \<Rightarrow>
          (case fst (replay_previous env messages
                       (snd (send_system_prompt env messages fileContent createChatSession))) of
             Inl e \<Rightarrow>
               (Inl e, snd (replay_previous env messages
                              (snd (send_system_prompt env messages fileContent createChatSession))))
           | Inr u' \<Rightarrow>
               send_last env messages imageData
                 (snd (replay_previous env messages
                         (snd (send_system_prompt env messages fileContent createChatSession))))))"
proof -
  assume conf: "isGeminiConfigured env"
  obtain r1 chat1 where
    s1: "send_system_prompt env messages fileContent createChatSession = (r1, chat1)"
    by (cases "send_system_prompt env messages fileContent createChatSession")
  obtain r2 chat2 where s2: "replay_previous env messages chat1 = (r2, chat2)"
    by (cases "replay_previous env messages chat1")
  show ?thesis
    using conf by (simp add: sendMessageToGemini_try_def s1 s2 split: sum.splits)
qed

lemma try_answered:
  assumes conf: "isGeminiConfigured env" and ne: "messages \<noteq> []"
    and ans: "answers env [] (expected_requests env messages fileContent imageData)"
  shows "sendMessageToGemini_try env messages fileContent imageData =
           (generate env
              (system_requests env messages fileContent @ map turn_request (butlast messages))
              (final_request messages imageData),
            \<lparr>sent = expected_requests env messages fileContent imageData\<rparr>)"
proof -
  let ?sys = "system_requests env messages fileContent"
  let ?rep = "map turn_request (butlast messages)"
  from ans have a1: "answers env [] ?sys" and a2: "answers env ?sys ?rep"
    by (simp_all add: expected_requests_def answers_append)
  have s1: "fst (send_system_prompt env messages fileContent createChatSession) = Inr ()"
    using send_system_prompt_answered [OF ne, of env createChatSession fileContent] a1
    by (simp add: createChatSession_def)
  from send_system_prompt_returns [OF s1]
  have c1: "snd (send_system_prompt env messages fileContent createChatSession) = \<lparr>sent = ?sys\<rparr>"
    by (simp add: createChatSession_def)
  have s2: "fst (replay_previous env messages \<lparr>sent = ?sys\<rparr>) = Inr ()"
    using replay_previous_answered [of env "\<lparr>sent = ?sys\<rparr>" messages] a2 by simp
  from replay_previous_returns [OF s2]
  have c2: "snd (replay_previous env messages \<lparr>sent = ?sys\<rparr>) = \<lparr>sent = ?sys @ ?rep\<rparr>"
    by simp
  show ?thesis
    by (simp add: try_unfold [OF conf] s1 c1 s2 c2 send_last_nonempty [OF ne]
        expected_requests_def)
qed

lemma try_sent_prefix:
  assumes ne: "messages \<noteq> []"
  shows "prefix (sent (snd (sendMessageToGemini_try env messages fileContent imageData)))
           (expected_requests env messages fileContent imageData)"
proof (cases "isGeminiConfigured env")
  case False
  then show ?thesis by (simp add: sendMessageToGemini_try_def)
next
  case True
  let ?sys = "system_requests env messages fileContent"
  let ?rep = "map turn_request (butlast messages)"
  let ?s1 = "send_system_prompt env messages fileContent createChatSession"
  show ?thesis
  proof (cases "fst ?s1")
    case (Inl e)
    from send_system_prompt_sent [of env messages fileContent createChatSession]
    have "prefix (sent (snd ?s1)) ?sys" by (auto simp: createChatSession_def)
    moreover have "sendMessageToGemini_try env messages fileContent imageData = (Inl e, snd ?s1)"
      using Inl by (simp add: try_unfold [OF True])
    ultimately show ?thesis
      by (simp add: expected_requests_def prefix_prefix)
  next
    case (Inr u)
    from send_system_prompt_returns [OF Inr]
    have c1: "snd ?s1 = \<lparr>sent = ?sys\<rparr>" by (simp add: createChatSession_def)
    let ?s2 = "replay_previous env messages \<lparr>sent = ?sys\<rparr>"
    show ?thesis
    proof (cases "fst ?s2")
      case (Inl e)
      from replay_previous_sent [of env messages "\<lparr>sent = ?sys\<rparr>"]
      obtain ys where ys: "sent (snd ?s2) = ?sys @ ys" "prefix ys ?rep" by auto
      have "sendMessageToGemini_try env messages fileContent imageData = (Inl e, snd ?s2)"
        using \<open>fst ?s1 = Inr u\<close> c1 Inl by (simp add: try_unfold [OF True])
      then show ?thesis
        using ys by (simp add: expected_requests_def prefix_prefix)
    next
      case (Inr u')
      from replay_previous_returns [OF Inr]
      have c2: "snd ?s2 = \<lparr>sent = ?sys @ ?rep\<rparr>" by simp
      have "snd (sendMessageToGemini_try env messages fileContent imageData) =
              \<lparr>sent = ?sys @ ?rep @ [final_request messages imageData]\<rparr>"
        using \<open>fst ?s1 = Inr u\<close> c1 Inr c2
        by (simp add: try_unfold [OF True] send_last_nonempty [OF ne])
      then show ?thesis
        by (simp add: expected_requests_def)
    qed
  qed
qed


lemmas gemini_defs =
  sendMessageToGemini_def sendMessageToGemini_try_def isGeminiConfigured_def API_KEY_def
  send_system_prompt_def choose_system_prompt_def replay_previous_def send_last_def
  last_content_def sendMessage_def createChatSession_def catch_block_def error_reply_def
  thrown_text_def

lemma run_answered:
  assumes conf: "isGeminiConfigured env" and ne: "messages \<noteq> []"
    and ans: "answers env [] (expected_requests env messages fileContent imageData)"
  shows "\<exists>reply.
           generate env
             (system_requests env messages fileContent @ map turn_request (butlast messages))
             (final_request messages imageData) = Inr reply
           \<and> sendMessageToGemini env messages fileContent imageData =
               (Fulfilled reply, expected_requests env messages fileContent imageData)"
proof -
  let ?earlier = "system_requests env messages fileContent @ map turn_request (butlast messages)"
  from ans have "answers env ?earlier [final_request messages imageData]"
    by (simp add: expected_requests_def answers_append)
  then obtain reply where
    reply: "generate env ?earlier (final_request messages imageData) = Inr reply"
    by (auto split: sum.splits)
  with try_answered [OF conf ne ans] show ?thesis
    by (simp add: sendMessageToGemini_def)
qed

lemma run_sent_prefix:
  "messages \<noteq> [] \<Longrightarrow>
   prefix (snd (sendMessageToGemini env messages fileContent imageData))
     (expected_requests env messages fileContent imageData)"
  using try_sent_prefix [of messages env fileContent imageData]
  by (cases "sendMessageToGemini_try env messages fileContent imageData")
     (auto simp: sendMessageToGemini_def split: sum.splits)

subsection \<open>The first failing call\<close>












subsection \<open>The claims about the conversation client\<close>

text \<open>
  Claim C1, as stated, fails. With a configured key and a model that answers every request,
  the history \<open>[{user, A}, {model, B}, {user, C}]\<close> without file content and image makes the
  client issue three requests, not two: the loop replays the model's turn \<open>B\<close> as well.
\<close>

theorem C1_counterexample:
  "snd (sendMessageToGemini example_env
          [\<lparr>role = User, content = ''A''\<rparr>, \<lparr>role = Model, content = ''B''\<rparr>,
           \<lparr>role = User, content = ''C''\<rparr>] None None)
     = [[Text ''A''], [Text ''B''], [Text ''C'']]
   \<and> snd (sendMessageToGemini example_env
          [\<lparr>role = User, content = ''A''\<rparr>, \<lparr>role = Model, content = ''B''\<rparr>,
           \<lparr>role = User, content = ''C''\<rparr>] None None)
     \<noteq> [[Text ''A''], [Text ''C'']]"
  by (simp add: gemini_defs example_env_def echo_model_def youtube_prompt_def rag_prompt_def
      replay_loop_step replay_loop_stop turn_request_def)

text \<open>
  Claim C1, amended. For the history \<open>[{user, A}, {model, B}, {user, C}]\<close> with no file content
  and no image, a configured key and a model that answers the three requests, the client
  issues exactly two replay calls, carrying \<open>A\<close> and then \<open>B\<close>, and one final call carrying
  \<open>C\<close>; it returns the reply to \<open>C\<close>, and neither of the two earlier replies.
\<close>

theorem C1_history_ABC:
  assumes "isGeminiConfigured env"
    and "generate env [] [Text ''A''] = Inr replyA"
    and "generate env [[Text ''A'']] [Text ''B''] = Inr replyB"
    and "generate env [[Text ''A''], [Text ''B'']] [Text ''C''] = Inr replyC"
  shows "sendMessageToGemini env
           [\<lparr>role = User, content = ''A''\<rparr>, \<lparr>role = Model, content = ''B''\<rparr>,
            \<lparr>role = User, content = ''C''\<rparr>] None None
         = (Fulfilled replyC, [[Text ''A''], [Text ''B''], [Text ''C'']])"
  using assms
  by (simp add: sendMessageToGemini_def sendMessageToGemini_try_def send_system_prompt_def
      replay_previous_def send_last_def last_content_def sendMessage_def createChatSession_def
      replay_loop_step replay_loop_stop turn_request_def)

text \<open>
  The amended C1 at the answering example model: the hypotheses hold there and the reply is
  the one to \<open>C\<close>.
\<close>

theorem C1_history_ABC_witness:
  "isGeminiConfigured example_env
   \<and> generate example_env [] [Text ''A''] = Inr ''echo A''
   \<and> generate example_env [[Text ''A'']] [Text ''B''] = Inr ''echo B''
   \<and> generate example_env [[Text ''A''], [Text ''B'']] [Text ''C''] = Inr ''echo C''
   \<and> sendMessageToGemini example_env
           [\<lparr>role = User, content = ''A''\<rparr>, \<lparr>role = Model, content = ''B''\<rparr>,
            \<lparr>role = User, content = ''C''\<rparr>] None None
         = (Fulfilled ''echo C'', [[Text ''A''], [Text ''B''], [Text ''C'']])"
proof -
  have conf: "isGeminiConfigured example_env"
    by (simp add: isGeminiConfigured_def API_KEY_def example_env_def)
  have a: "generate example_env [] [Text ''A''] = Inr ''echo A''"
    by (simp add: example_env_def echo_model_def)
  have b: "generate example_env [[Text ''A'']] [Text ''B''] = Inr ''echo B''"
    by (simp add: example_env_def echo_model_def)
  have c: "generate example_env [[Text ''A''], [Text ''B'']] [Text ''C''] = Inr ''echo C''"
    by (simp add: example_env_def echo_model_def)
  from C1_history_ABC [OF conf a b c] conf a b c show ?thesis by simp
qed

text \<open>
  Claim C2. For every non-empty message history the requests issued are, in this order, the
  instruction turn (if the file content calls for one), one request per message before the
  last, carrying that message's text whatever its role, in index order, and the request of
  the last message. Whatever fails, the requests issued are an initial segment of this
  sequence; with a configured key and a model that answers each of them, all of them are
  issued and the value returned is the reply to the last one, so every earlier reply is
  dropped.
\<close>

theorem C2_replay_in_order:
  assumes "messages \<noteq> []"
  shows "prefix (snd (sendMessageToGemini env messages fileContent imageData))
           (system_requests env messages fileContent
            @ map turn_request (butlast messages)
            @ [final_request messages imageData])
         \<and> (isGeminiConfigured env
              \<and> answers env []
                  (system_requests env messages fileContent
                   @ map turn_request (butlast messages)
                   @ [final_request messages imageData])
            \<longrightarrow> (\<exists>reply.
                   generate env
                     (system_requests env messages fileContent
                      @ map turn_request (butlast messages))
                     (final_request messages imageData) = Inr reply
                   \<and> sendMessageToGemini env messages fileContent imageData =
                       (Fulfilled reply,
                        system_requests env messages fileContent
                        @ map turn_request (butlast messages)
                        @ [final_request messages imageData])))"
  using run_sent_prefix [OF assms, of env fileContent imageData]
    run_answered [OF _ assms, of env fileContent imageData]
  by (simp add: expected_requests_def)

text \<open>
  C2 at the answering example model, with a document as file content: one instruction turn,
  the turns \<open>A\<close> and \<open>B\<close>, then \<open>C\<close>, whose reply is returned.
\<close>

theorem C2_replay_in_order_witness:
  "[\<lparr>role = User, content = ''A''\<rparr>, \<lparr>role = Model, content = ''B''\<rparr>,
    \<lparr>role = User, content = ''C''\<rparr>] \<noteq> []
   \<and> isGeminiConfigured example_env
   \<and> answers example_env []
       [[Text ''I need you to act as a document assistant with the following instructions: RAG: notes''],
        [Text ''A''], [Text ''B''], [Text ''C'']]
   \<and> sendMessageToGemini example_env
        [\<lparr>role = User, content = ''A''\<rparr>, \<lparr>role = Model, content = ''B''\<rparr>,
         \<lparr>role = User, content = ''C''\<rparr>] (Some ''notes'') None
       = (Fulfilled ''echo C'',
          [[Text ''I need you to act as a document assistant with the following instructions: RAG: notes''],
           [Text ''A''], [Text ''B''], [Text ''C'']])"
proof -
  let ?messages = "[\<lparr>role = User, content = ''A''\<rparr>, \<lparr>role = Model, content = ''B''\<rparr>,
    \<lparr>role = User, content = ''C''\<rparr>]"
  have ne: "?messages \<noteq> []" by simp
  have conf: "isGeminiConfigured example_env"
    by (simp add: isGeminiConfigured_def API_KEY_def example_env_def)
  have sys: "system_requests example_env ?messages (Some ''notes'') =
      [[Text ''I need you to act as a document assistant with the following instructions: RAG: notes'']]"
    by (simp add: system_requests_def choose_system_prompt_def last_content_def
        instruction_prefix_def example_env_def echo_model_def youtube_prompt_def rag_prompt_def)
  have rep: "map turn_request (butlast ?messages) = [[Text ''A''], [Text ''B'']]"
    by (simp add: turn_request_def)
  have fin: "final_request ?messages None = [Text ''C'']"
    by (simp add: final_request_def)
  have ans: "answers example_env []
       [[Text ''I need you to act as a document assistant with the following instructions: RAG: notes''],
        [Text ''A''], [Text ''B''], [Text ''C'']]"
    by (simp add: example_env_def echo_model_def youtube_prompt_def rag_prompt_def)
  from ans have ans': "answers example_env []
       (system_requests example_env ?messages (Some ''notes'')
        @ map turn_request (butlast ?messages) @ [final_request ?messages None])"
    by (simp only: sys rep fin append.simps)
  from C2_replay_in_order [OF ne, of example_env "Some ''notes''" None] conf ans'
  obtain reply where
    reply: "generate example_env
              (system_requests example_env ?messages (Some ''notes'')
               @ map turn_request (butlast ?messages))
              (final_request ?messages None) = Inr reply"
    and run: "sendMessageToGemini example_env ?messages (Some ''notes'') None =
              (Fulfilled reply,
               system_requests example_env ?messages (Some ''notes'')
               @ map turn_request (butlast ?messages) @ [final_request ?messages None])"
    by blast
  from reply have "echo_model
      [[Text ''I need you to act as a document assistant with the following instructions: RAG: notes''],
       [Text ''A''], [Text ''B'']] [Text ''C''] = Inr reply"
    by (simp only: sys rep fin append.simps) (simp add: example_env_def)
  then have "reply = ''echo C''"
    by (simp add: echo_model_def)
  with run have "sendMessageToGemini example_env ?messages (Some ''notes'') None =
       (Fulfilled ''echo C'',
        [[Text ''I need you to act as a document assistant with the following instructions: RAG: notes''],
         [Text ''A''], [Text ''B''], [Text ''C'']])"
    by (simp only: sys rep fin append.simps)
  with ne conf ans show ?thesis by blast
qed




text \<open>
  Claim C4. With an empty API key, every input is answered with the error reply for the
  configuration error, and no request is issued to the model.
\<close>

theorem C4_unconfigured:
  assumes "API_KEY env = []"
  shows "sendMessageToGemini env messages fileContent imageData =
           (Fulfilled (''I'm sorry, I encountered an error while processing your request. ''
                       @ ''Gemini API key is not configured''), [])"
  using assms
  by (simp add: sendMessageToGemini_def sendMessageToGemini_try_def isGeminiConfigured_def
      catch_block_def error_reply_def thrown_text_def)

text \<open>
  C4 at the example environment without a key.
\<close>

theorem C4_unconfigured_witness:
  "API_KEY unconfigured_env = []
   \<and> sendMessageToGemini unconfigured_env [\<lparr>role = User, content = ''hello''\<rparr>]
         (Some ''notes'') None =
       (Fulfilled ''I'm sorry, I encountered an error while processing your request. Gemini API key is not configured'', [])"
proof -
  have k: "API_KEY unconfigured_env = []"
    by (simp add: API_KEY_def unconfigured_env_def)
  from C4_unconfigured [OF k, of "[\<lparr>role = User, content = ''hello''\<rparr>]" "Some ''notes''" None] k
  show ?thesis by simp
qed

text \<open>
  Claim C5. For every non-empty history with file content \<^verbatim>\<open>IMAGE_FILE\<close> and an image, the
  requests issued are an initial segment of: one text-only request per message before the
  last, then the last message's text with the image beside it, as base64 data and MIME type.
  So no instruction turn is sent and no request but the final one carries the image. With a
  configured key and a model that answers each request, all of them are issued and the reply
  to the final one is returned.
\<close>

theorem C5_image_file:
  assumes "messages \<noteq> []"
  shows "prefix (snd (sendMessageToGemini env messages (Some ''IMAGE_FILE'') (Some img)))
           (map turn_request (butlast messages)
            @ [[Text (content (last messages)),
                InlineData (toString_base64 (buffer img)) (mimeType img)]])
         \<and> (isGeminiConfigured env
              \<and> answers env []
                  (map turn_request (butlast messages)
                   @ [[Text (content (last messages)),
                       InlineData (toString_base64 (buffer img)) (mimeType img)]])
            \<longrightarrow> (\<exists>reply.
                   generate env (map turn_request (butlast messages))
                     [Text (content (last messages)),
                      InlineData (toString_base64 (buffer img)) (mimeType img)] = Inr reply
                   \<and> sendMessageToGemini env messages (Some ''IMAGE_FILE'') (Some img) =
                       (Fulfilled reply,
                        map turn_request (butlast messages)
                        @ [[Text (content (last messages)),
                            InlineData (toString_base64 (buffer img)) (mimeType img)]])))"
proof -
  have sys: "system_requests env messages (Some ''IMAGE_FILE'') = []"
    by (simp add: system_requests_def choose_system_prompt_def)
  have fin: "final_request messages (Some img) =
      [Text (content (last messages)), InlineData (toString_base64 (buffer img)) (mimeType img)]"
    by (simp add: final_request_def)
  show ?thesis
    using run_sent_prefix [OF assms, of env "Some ''IMAGE_FILE''" "Some img"]
      run_answered [OF _ assms, of env "Some ''IMAGE_FILE''" "Some img"]
    by (simp add: expected_requests_def sys fin)
qed

text \<open>
  C5 at the answering example model, with the three bytes \<open>Man\<close> as the image.
\<close>

theorem C5_image_file_witness:
  "[\<lparr>role = User, content = ''A''\<rparr>, \<lparr>role = Model, content = ''B''\<rparr>,
    \<lparr>role = User, content = ''C''\<rparr>] \<noteq> []
   \<and> isGeminiConfigured example_env
   \<and> answers example_env []
       [[Text ''A''], [Text ''B''], [Text ''C'', InlineData ''TWFu'' ''image/png'']]
   \<and> sendMessageToGemini example_env
        [\<lparr>role = User, content = ''A''\<rparr>, \<lparr>role = Model, content = ''B''\<rparr>,
         \<lparr>role = User, content = ''C''\<rparr>] (Some ''IMAGE_FILE'')
        (Some \<lparr>buffer = [77, 97, 110], mimeType = ''image/png''\<rparr>)
       = (Fulfilled ''echo Cimage/png'',
          [[Text ''A''], [Text ''B''], [Text ''C'', InlineData ''TWFu'' ''image/png'']])"
proof -
  let ?messages = "[\<lparr>role = User, content = ''A''\<rparr>, \<lparr>role = Model, content = ''B''\<rparr>,
    \<lparr>role = User, content = ''C''\<rparr>]"
  let ?img = "\<lparr>buffer = [77, 97, 110], mimeType = ''image/png''\<rparr>"
  have ne: "?messages \<noteq> []" by simp
  have conf: "isGeminiConfigured example_env"
    by (simp add: isGeminiConfigured_def API_KEY_def example_env_def)
  have rep: "map turn_request (butlast ?messages) = [[Text ''A''], [Text ''B'']]"
    by (simp add: turn_request_def)
  have b64: "toString_base64 (buffer ?img) = ''TWFu''"
    by (simp add: toString_base64_def base64_digit_def base64_alphabet_def)
  have ans: "answers example_env []
       [[Text ''A''], [Text ''B''], [Text ''C'', InlineData ''TWFu'' ''image/png'']]"
    by (simp add: example_env_def echo_model_def youtube_prompt_def rag_prompt_def)
  have lst: "content (last ?messages) = ''C''" and mime: "mimeType ?img = ''image/png''"
    by simp_all
  from ans have ans': "answers example_env []
       (map turn_request (butlast ?messages)
        @ [[Text (content (last ?messages)),
            InlineData (toString_base64 (buffer ?img)) (mimeType ?img)]])"
    by (simp only: rep b64 lst mime append.simps)
  from C5_image_file [OF ne, of example_env ?img] conf ans'
  obtain reply where
    reply: "generate example_env (map turn_request (butlast ?messages))
              [Text (content (last ?messages)),
               InlineData (toString_base64 (buffer ?img)) (mimeType ?img)] = Inr reply"
    and run: "sendMessageToGemini example_env ?messages (Some ''IMAGE_FILE'') (Some ?img) =
              (Fulfilled reply,
               map turn_request (butlast ?messages)
               @ [[Text (content (last ?messages)),
                   InlineData (toString_base64 (buffer ?img)) (mimeType ?img)]])"
    by blast
  from reply have "echo_model [[Text ''A''], [Text ''B'']]
      [Text ''C'', InlineData ''TWFu'' ''image/png''] = Inr reply"
    by (simp only: rep b64 lst mime) (simp add: example_env_def)
  then have "reply = ''echo Cimage/png''"
    by (simp add: echo_model_def)
  with run have "sendMessageToGemini example_env ?messages (Some ''IMAGE_FILE'') (Some ?img) =
       (Fulfilled ''echo Cimage/png'',
        [[Text ''A''], [Text ''B''], [Text ''C'', InlineData ''TWFu'' ''image/png'']])"
    by (simp only: rep b64 lst mime append.simps)
  with ne conf ans show ?thesis by blast
qed



section \<open>Properties of the chat hook\<close>

subsection \<open>What the mutation functions leave alone\<close>

lemma select_file_single:
  "outage db = None \<Longrightarrow> filter (\<lambda>f. file_id f = fileId) (files db) = [row] \<Longrightarrow>
   select_file_maybeSingle db fileId = (Some row, None)"
  by (simp add: select_file_maybeSingle_def)

lemma select_file_outage:
  "outage db = Some e \<Longrightarrow> select_file_maybeSingle db fileId = (None, Some e)"
  by (simp add: select_file_maybeSingle_def)

lemma startChatWithFile_mutationFn_denied:
  assumes "filter (\<lambda>f. file_id f = fileId) (files (store w)) = [row]"
    and "Some (file_user_id row) \<noteq> userId h"
  shows "\<exists>e. startChatWithFile_mutationFn h w fileId = (Inl e, w)"
proof (cases "outage (store w)")
  case None
  from select_file_single [OF None assms(1)] assms(2) show ?thesis
    by (simp add: startChatWithFile_mutationFn_def split: option.splits)
next
  case (Some e)
  from select_file_outage [OF Some] show ?thesis
    by (simp add: startChatWithFile_mutationFn_def split: option.splits)
qed

lemma updateChat_mutationFn_cache:
  "cache (snd (updateChat_mutationFn h w chatId chatData)) = cache w"
  by (simp add: updateChat_mutationFn_def split: option.splits prod.splits)

lemma deleteChat_mutationFn_cache:
  "cache (snd (deleteChat_mutationFn h w chatId)) = cache w"
  by (simp add: deleteChat_mutationFn_def split: option.splits prod.splits)

lemma deleteChat_mutationFn_result:
  "fst (deleteChat_mutationFn h w chatId) = Inr deleted \<Longrightarrow> deleted = chatId"
  by (simp add: deleteChat_mutationFn_def split: option.splits prod.splits if_splits)

lemma updateChat_success:
  assumes "updateChat h w chatId chatData = (Inr c, w')"
  shows "cache w' = updateChatInCache c (cache w)"
proof -
  obtain r w1 where m: "updateChat_mutationFn h w chatId chatData = (r, w1)"
    by (cases "updateChat_mutationFn h w chatId chatData")
  with assms have "r = Inr c" and w': "w' = w1\<lparr>cache := updateChatInCache c (cache w1)\<rparr>"
    by (auto simp: updateChat_def split: sum.splits)
  moreover from m updateChat_mutationFn_cache [of h w chatId chatData] have "cache w1 = cache w"
    by simp
  ultimately show ?thesis by simp
qed

lemma deleteChat_success:
  assumes "deleteChat h w chatId = (Inr deleted, w')"
  shows "deleted = chatId \<and> cache w' = removeChatFromCache chatId (cache w)"
proof -
  obtain r w1 where m: "deleteChat_mutationFn h w chatId = (r, w1)"
    by (cases "deleteChat_mutationFn h w chatId")
  with assms have r: "r = Inr deleted"
    and w': "w' = w1\<lparr>cache := removeChatFromCache deleted (cache w1)\<rparr>"
    by (auto simp: deleteChat_def split: sum.splits)
  from m r deleteChat_mutationFn_result [of h w chatId deleted] have d: "deleted = chatId"
    by simp
  from m deleteChat_mutationFn_cache [of h w chatId] have "cache w1 = cache w"
    by simp
  with w' d show ?thesis by simp
qed

lemma filter_none_keeps_all: "filter P xs = [] \<Longrightarrow> filter (\<lambda>x. \<not> P x) xs = xs"
  by (induction xs) (auto split: if_splits)

lemma trim_white_space:
  "trim [0x0020, 0x00A0, 0x2028, 0xFEFF, 0x3000] = []"
  "trim (utf16 ''  f 9 '') = utf16 ''f 9''"
  by (simp_all add: trim_def is_space_def utf16_def)

subsection \<open>The claims about the chat hook\<close>

text \<open>
  Claim C6, as stated, fails. The files table holds a row of \<open>bob\<close> whose id is a single
  space; \<open>alice\<close>, authenticated and with the store serving, starts a chat with that id. The
  mutation fails with \<^verbatim>\<open>INVALID_FILE_ID\<close>, thrown before the lookup, not with
  \<^verbatim>\<open>FILE_ACCESS_DENIED\<close>.
\<close>

theorem C6_counterexample:
  "files (store blank_id_world) = [\<lparr>file_id = utf16 '' '', file_user_id = ''bob''\<rparr>]
   \<and> userId example_hook = Some ''alice''
   \<and> validateUserAuth example_hook = None
   \<and> outage (store blank_id_world) = None
   \<and> startChatWithFile example_hook blank_id_world (utf16 '' '') =
       (Inl (ChatError ''Valid file ID is required'' ''INVALID_FILE_ID'' 400), blank_id_world)
   \<and> fst (startChatWithFile example_hook blank_id_world (utf16 '' '')) \<noteq>
       Inl (ChatError ''File access denied'' ''FILE_ACCESS_DENIED'' 403)"
  by (simp add: startChatWithFile_def startChatWithFile_mutationFn_def validateUserAuth_def
      createChatError_def trim_def is_space_def utf16_def example_hook_def blank_id_world_def)

text \<open>
  Claim C6, amended. When the \<^verbatim>\<open>files\<close> table holds the file id in one row and that row's
  owner is not the caller's user id, starting a chat with the file fails and leaves store,
  cache and the record of chat creations as they were: no chat is created and nothing is
  inserted. For an authenticated caller and a store that serves the lookup, the error is of
  kind \<^verbatim>\<open>FILE_ACCESS_DENIED\<close> when the id is not blank, that is, when trimming leaves a
  character; for an authenticated caller and a blank id it is of kind \<^verbatim>\<open>INVALID_FILE_ID\<close>.
\<close>

theorem C6_file_access_denied:
  assumes "filter (\<lambda>f. file_id f = fileId) (files (store w)) = [row]"
    and "Some (file_user_id row) \<noteq> userId h"
  shows "(\<exists>e. fst (startChatWithFile h w fileId) = Inl e)
         \<and> snd (startChatWithFile h w fileId) = w
         \<and> (validateUserAuth h = None \<and> trim fileId \<noteq> [] \<and> outage (store w) = None
            \<longrightarrow> fst (startChatWithFile h w fileId) =
                  Inl (ChatError ''File access denied'' ''FILE_ACCESS_DENIED'' 403))
         \<and> (validateUserAuth h = None \<and> trim fileId = []
            \<longrightarrow> fst (startChatWithFile h w fileId) =
                  Inl (ChatError ''Valid file ID is required'' ''INVALID_FILE_ID'' 400))"
proof -
  from startChatWithFile_mutationFn_denied [OF assms]
  obtain e where e: "startChatWithFile_mutationFn h w fileId = (Inl e, w)" by blast
  then have run: "startChatWithFile h w fileId = (Inl e, w)"
    by (simp add: startChatWithFile_def)
  have denied: "e = ChatError ''File access denied'' ''FILE_ACCESS_DENIED'' 403"
    if "validateUserAuth h = None" "trim fileId \<noteq> []" "outage (store w) = None"
    using e that select_file_single [OF that(3) assms(1)] assms(2)
    by (simp add: startChatWithFile_mutationFn_def createChatError_def)
  have blank: "e = ChatError ''Valid file ID is required'' ''INVALID_FILE_ID'' 400"
    if "validateUserAuth h = None" "trim fileId = []"
    using e that by (simp add: startChatWithFile_mutationFn_def createChatError_def)
  from run denied blank show ?thesis by simp
qed

text \<open>
  The amended C6 at the example: \<open>alice\<close> starts a chat with the file of \<open>bob\<close>.
\<close>

theorem C6_file_access_denied_witness:
  "filter (\<lambda>f. file_id f = utf16 ''f9'') (files (store example_world)) =
     [\<lparr>file_id = utf16 ''f9'', file_user_id = ''bob''\<rparr>]
   \<and> Some (file_user_id \<lparr>file_id = utf16 ''f9'', file_user_id = ''bob''\<rparr>) \<noteq> userId example_hook
   \<and> validateUserAuth example_hook = None \<and> trim (utf16 ''f9'') \<noteq> []
   \<and> outage (store example_world) = None
   \<and> startChatWithFile example_hook example_world (utf16 ''f9'') =
       (Inl (ChatError ''File access denied'' ''FILE_ACCESS_DENIED'' 403), example_world)"
proof -
  have rows: "filter (\<lambda>f. file_id f = utf16 ''f9'') (files (store example_world)) =
     [\<lparr>file_id = utf16 ''f9'', file_user_id = ''bob''\<rparr>]"
    by (simp add: example_world_def example_store_def utf16_def)
  have owner:
    "Some (file_user_id \<lparr>file_id = utf16 ''f9'', file_user_id = ''bob''\<rparr>) \<noteq> userId example_hook"
    by (simp add: example_hook_def)
  have pre: "validateUserAuth example_hook = None" "trim (utf16 ''f9'') \<noteq> []"
    "outage (store example_world) = None"
    by (simp_all add: validateUserAuth_def example_hook_def trim_def is_space_def utf16_def
        example_world_def example_store_def)
  from C6_file_access_denied [OF rows owner] pre rows owner show ?thesis
    by (simp add: prod_eq_iff)
qed

text \<open>
  Claim C7. When the delete mutation succeeds for a chat id, the entry of that id is dropped
  from the single-item cache and the list cache holds the old list (or the empty list, had
  none been loaded) without the elements of that id. Under every other id the single-item
  entry is the same, and the elements of the list with that id are the same, in the same
  order.
\<close>

theorem C7_delete_updates_cache:
  assumes "deleteChat h w chatId = (Inr deleted, w')"
  shows "deleted = chatId
         \<and> chat_items (cache w') chatId = None
         \<and> (\<forall>k. k \<noteq> chatId \<longrightarrow> chat_items (cache w') k = chat_items (cache w) k)
         \<and> (\<exists>ys. chats_list (cache w') = Some ys
                \<and> ys = filter (\<lambda>c. chat_id c \<noteq> chatId)
                         (case chats_list (cache w) of None \<Rightarrow> [] | Some xs \<Rightarrow> xs)
                \<and> (\<forall>c \<in> set ys. chat_id c \<noteq> chatId)
                \<and> (\<forall>k. k \<noteq> chatId \<longrightarrow>
                       filter (\<lambda>c. chat_id c = k) ys =
                       filter (\<lambda>c. chat_id c = k)
                         (case chats_list (cache w) of None \<Rightarrow> [] | Some xs \<Rightarrow> xs)))"
proof -
  from deleteChat_success [OF assms]
  have d: "deleted = chatId" and c: "cache w' = removeChatFromCache chatId (cache w)"
    by simp_all
  have keep: "filter (\<lambda>c. chat_id c \<noteq> chatId \<and> chat_id c = k) xs =
              filter (\<lambda>c. chat_id c = k) xs" if "k \<noteq> chatId" for k and xs :: "TypeChat list"
    using that by (induction xs) auto
  show ?thesis
  proof (cases "chats_list (cache w)")
    case None
    with d show ?thesis
      by (simp add: c removeChatFromCache_def updateChatListCache_def)
  next
    case (Some xs)
    with d keep show ?thesis
      by (simp add: c removeChatFromCache_def updateChatListCache_def)
  qed
qed

text \<open>
  C7 at the example: deleting the first chat empties its entry and leaves the second chat in
  the list.
\<close>

theorem C7_delete_updates_cache_witness:
  "deleteChat example_hook example_world ''c1'' =
     (Inr ''c1'', snd (deleteChat example_hook example_world ''c1''))
   \<and> chat_items (cache example_world) ''c1'' = Some chat_one
   \<and> chats_list (cache example_world) = Some [chat_two, chat_one]
   \<and> chat_items (cache (snd (deleteChat example_hook example_world ''c1''))) ''c1'' = None
   \<and> chats_list (cache (snd (deleteChat example_hook example_world ''c1''))) = Some [chat_two]"
proof -
  have run: "deleteChat example_hook example_world ''c1'' =
     (Inr ''c1'', snd (deleteChat example_hook example_world ''c1''))"
    by (simp add: deleteChat_def deleteChat_mutationFn_def validateUserAuth_def delete_chat_def
        owned_chat_def removeChatFromCache_def updateChatListCache_def
        example_hook_def example_world_def example_store_def example_cache_def
        example_createChat_def chat_one_def chat_two_def)
  have before: "chat_items (cache example_world) ''c1'' = Some chat_one"
    "chats_list (cache example_world) = Some [chat_two, chat_one]"
    by (simp_all add: example_world_def example_cache_def)
  have ids: "chat_id chat_one = ''c1''" "chat_id chat_two = ''c2''"
    by (simp_all add: chat_one_def chat_two_def)
  from C7_delete_updates_cache [OF run] before ids run show ?thesis
    by simp
qed

text \<open>
  Claim C8. When the update mutation succeeds with chat \<open>c\<close>, the single-item entry under the
  id of \<open>c\<close> is \<open>c\<close> and the entries under other ids are the same. A loaded list keeps its
  length; at each position an element with the id of \<open>c\<close> is replaced by \<open>c\<close> and any other
  element stays as it was. A list not yet loaded becomes the list of \<open>c\<close> alone.
\<close>

theorem C8_update_updates_cache:
  assumes "updateChat h w chatId chatData = (Inr c, w')"
  shows "chat_items (cache w') (chat_id c) = Some c
         \<and> (\<forall>k. k \<noteq> chat_id c \<longrightarrow> chat_items (cache w') k = chat_items (cache w) k)
         \<and> (case chats_list (cache w) of
              None \<Rightarrow> chats_list (cache w') = Some [c]
            | Some xs \<Rightarrow>
                (\<exists>ys. chats_list (cache w') = Some ys \<and> length ys = length xs
                   \<and> (\<forall>i < length xs.
                         ys ! i = (if chat_id (xs ! i) = chat_id c then c else xs ! i))))"
  using updateChat_success [OF assms]
  by (simp add: updateChatInCache_def updateChatListCache_def split: option.splits)

text \<open>
  C8 at the example: renaming the first chat replaces it under its id and at its position in
  the list, next to the untouched second chat.
\<close>

theorem C8_update_updates_cache_witness:
  "updateChat example_hook example_world ''c1'' rename_to_third =
     (Inr (chat_one\<lparr>chat_title := ''Third''\<rparr>),
      snd (updateChat example_hook example_world ''c1'' rename_to_third))
   \<and> chats_list (cache example_world) = Some [chat_two, chat_one]
   \<and> chat_items (cache (snd (updateChat example_hook example_world ''c1'' rename_to_third))) ''c1''
       = Some (chat_one\<lparr>chat_title := ''Third''\<rparr>)
   \<and> chats_list (cache (snd (updateChat example_hook example_world ''c1'' rename_to_third)))
       = Some [chat_two, chat_one\<lparr>chat_title := ''Third''\<rparr>]"
proof -
  let ?w' = "snd (updateChat example_hook example_world ''c1'' rename_to_third)"
  let ?c = "chat_one\<lparr>chat_title := ''Third''\<rparr>"
  have run: "updateChat example_hook example_world ''c1'' rename_to_third = (Inr ?c, ?w')"
    by (simp add: updateChat_def updateChat_mutationFn_def validateUserAuth_def
        update_chat_single_def owned_chat_def apply_patch_def updateChatInCache_def
        updateChatListCache_def rename_to_third_def
        example_hook_def example_world_def example_store_def example_cache_def
        example_createChat_def chat_one_def chat_two_def)
  have before: "chats_list (cache example_world) = Some [chat_two, chat_one]"
    by (simp add: example_world_def example_cache_def)
  have ids: "chat_id ?c = ''c1''" "chat_id chat_one = ''c1''" "chat_id chat_two = ''c2''"
    by (simp_all add: chat_one_def chat_two_def)
  from C8_update_updates_cache [OF run]
  have item: "chat_items (cache ?w') (chat_id ?c) = Some ?c"
    and lst: "\<exists>ys. chats_list (cache ?w') = Some ys \<and> length ys = length [chat_two, chat_one]
        \<and> (\<forall>i < length [chat_two, chat_one].
              ys ! i = (if chat_id ([chat_two, chat_one] ! i) = chat_id ?c then ?c
                        else [chat_two, chat_one] ! i))"
    by (simp_all add: before)
  from lst obtain ys where ys: "chats_list (cache ?w') = Some ys" "length ys = 2"
    "ys ! 0 = chat_two" "ys ! 1 = ?c"
    by (auto simp: ids All_less_Suc2 numeral_2_eq_2)
  from ys(2-4) have "ys = [chat_two, ?c]"
    by (cases ys; cases "tl ys") (auto simp: numeral_2_eq_2)
  with ys(1) item ids run before show ?thesis by simp
qed

text \<open>
  Claim C9. For an authenticated caller, a chat id that passes validation and a store that
  serves the request, the delete mutation succeeds with the id and removes the id from the
  cache, whether or not a row was under the id-and-owner filter: when none was, the store is
  left as it was and the outcome is the same. No error such as \<^verbatim>\<open>CHAT_NOT_FOUND\<close> is raised.
\<close>

theorem C9_delete_of_no_row:
  assumes "validateUserAuth h = None" and "validateChatId h chatId"
    and "outage (store w) = None"
  shows "fst (deleteChat h w chatId) = Inr chatId
         \<and> cache (snd (deleteChat h w chatId)) = removeChatFromCache chatId (cache w)
         \<and> (filter (owned_chat chatId (userId h)) (chats (store w)) = []
            \<longrightarrow> store (snd (deleteChat h w chatId)) = store w)"
  using assms
  by (simp add: deleteChat_def deleteChat_mutationFn_def delete_chat_def filter_none_keeps_all)

text \<open>
  C9 at the example: deleting an id that no chat has succeeds and changes neither store nor
  list.
\<close>

theorem C9_delete_of_no_row_witness:
  "validateUserAuth example_hook = None \<and> validateChatId example_hook ''gone''
   \<and> outage (store example_world) = None
   \<and> filter (owned_chat ''gone'' (userId example_hook)) (chats (store example_world)) = []
   \<and> fst (deleteChat example_hook example_world ''gone'') = Inr ''gone''
   \<and> store (snd (deleteChat example_hook example_world ''gone'')) = store example_world
   \<and> chats_list (cache (snd (deleteChat example_hook example_world ''gone'')))
       = Some [chat_two, chat_one]"
proof -
  have pre: "validateUserAuth example_hook = None" "validateChatId example_hook ''gone''"
    "outage (store example_world) = None"
    by (simp_all add: validateUserAuth_def example_hook_def example_world_def example_store_def)
  have none: "filter (owned_chat ''gone'' (userId example_hook)) (chats (store example_world)) = []"
    by (simp add: owned_chat_def example_hook_def example_world_def example_store_def example_cache_def
        example_createChat_def chat_one_def chat_two_def)
  have lst: "chats_list (removeChatFromCache ''gone'' (cache example_world)) =
      Some [chat_two, chat_one]"
    by (simp add: removeChatFromCache_def updateChatListCache_def example_hook_def example_world_def example_store_def example_cache_def
        example_createChat_def chat_one_def chat_two_def)
  from C9_delete_of_no_row [OF pre] pre none lst show ?thesis
    by simp
qed

end
